theory Spec2Isabelle
  imports Main "HOL-Library.AList"
begin

section \<open>Data model\<close>

text \<open>
  The repository holds four sketches of one notification service:
  \<^item> \<^verbatim>\<open>sample-scripts/scalable-notification-service.js\<close>: resolvers over Postgres and Redis
    (prefix \<open>js_\<close> below);
  \<^item> \<^verbatim>\<open>sample-scripts/typescript-notification-service.ts\<close>: class \<open>Database\<close>, resolvers and
    \<open>CleanupJob\<close> (prefixes \<open>Database_\<close>, \<open>ts_\<close>, \<open>CleanupJob_\<close>);
  \<^item> the Prisma resolvers of \<^verbatim>\<open>notification-server\<close> (prefix \<open>prisma_\<close>);
  \<^item> the in-memory server built on a \<open>Map\<close> (prefix \<open>mem_\<close>).

  A JavaScript \<open>Date\<close> is its time value, an integer number of milliseconds. An ISO-8601
  string made by \<open>toISOString\<close> is identified with the time value it denotes; where the code
  depends on whether it holds a \<open>Date\<close> object or such a string, the two are told apart by
  \<open>js_date\<close>.
\<close>

type_synonym timestamp = int

datatype js_date = Date timestamp | ISOString timestamp

text \<open>
  One record serves for a row of the table \<open>notifications\<close> (columns \<open>id\<close>, \<open>user_id\<close>,
  \<open>message\<close>, \<open>state\<close>, \<open>created_at\<close>) and for the objects the resolvers return. The state
  is the string the JavaScript runtime holds.
\<close>

record ('u, 't) Notification =
  id' :: nat
  userId :: 'u
  message :: string
  state :: string
  createdAt :: 't

datatype error =
  Error string
  | TypeError string
  | DatabaseError string

abbreviation InvalidState :: error where
  "InvalidState \<equiv> Error ''Invalid notification state''"

abbreviation NotFound :: error where
  "NotFound \<equiv> Error ''Notification not found''"

section \<open>The Prisma resolvers\<close>

text \<open>
  Modelled from the spec: the enum \<open>NotificationState\<close> of the module \<^verbatim>\<open>./types\<close>, which the
  resolvers import and which is not among the sources. Its members are the four tokens of the
  data model (and of the GraphQL schema of the same server).
\<close>

definition NotificationState_values :: "string list" where
  "NotificationState_values = [''UNREAD'', ''VIEWED'', ''DISMISSED'', ''AUTODISMISSED'']"

datatype prisma_call =
  FindMany int
  | Create string int
  | Update nat string

record prisma_db =
  prisma_notification :: "(int, timestamp) Notification list"
  prisma_autoincrement :: nat
  prisma_log :: "prisma_call list"

text \<open>\<open>prisma.notification.findMany({ where: { userId, state: { not: DISMISSED } } })\<close>\<close>

definition prisma_getNotificationsForUser ::
  "prisma_db \<Rightarrow> int \<Rightarrow> (int, timestamp) Notification list \<times> prisma_db" where
  "prisma_getNotificationsForUser db args_userId =
     (filter (\<lambda>n. userId n = args_userId \<and> state n \<noteq> ''DISMISSED'') (prisma_notification db),
      db\<lparr>prisma_log := prisma_log db @ [FindMany args_userId]\<rparr>)"

text \<open>
  \<open>prisma.notification.create\<close>: the record gets the next autoincrement id and the time of
  the insert, \<open>now\<close>.
\<close>

definition prisma_createNotification ::
  "prisma_db \<Rightarrow> string \<Rightarrow> int \<Rightarrow> timestamp \<Rightarrow> (int, timestamp) Notification \<times> prisma_db" where
  "prisma_createNotification db args_message args_userId now =
     (let newNotification =
            \<lparr>id' = Suc (prisma_autoincrement db), userId = args_userId, message = args_message,
             state = ''UNREAD'', createdAt = now\<rparr>
      in (newNotification,
          db\<lparr>prisma_notification := prisma_notification db @ [newNotification],
             prisma_autoincrement := Suc (prisma_autoincrement db),
             prisma_log := prisma_log db @ [Create args_message args_userId]\<rparr>))"

text \<open>
  \<open>prisma.notification.update({ where: { id }, data: { state } })\<close> rejects with the error
  P2025 when no record has the id.
\<close>

definition prisma_update ::
  "prisma_db \<Rightarrow> nat \<Rightarrow> string \<Rightarrow> (error + (int, timestamp) Notification) \<times> prisma_db" where
  "prisma_update db i s =
     (let db' = db\<lparr>prisma_log := prisma_log db @ [Update i s]\<rparr>
      in case find (\<lambda>n. id' n = i) (prisma_notification db) of
           None \<Rightarrow> (Inl (DatabaseError ''P2025''), db')
         | Some n \<Rightarrow>
             (Inr (n\<lparr>state := s\<rparr>),
              db'\<lparr>prisma_notification :=
                    map (\<lambda>m. if id' m = i then m\<lparr>state := s\<rparr> else m) (prisma_notification db)\<rparr>))"

definition prisma_updateUserNotification ::
  "prisma_db \<Rightarrow> nat \<Rightarrow> string \<Rightarrow> (error + (int, timestamp) Notification) \<times> prisma_db" where
  "prisma_updateUserNotification db args_id args_state =
     (if args_state \<notin> set NotificationState_values
      then (Inl InvalidState, db)
      else prisma_update db args_id args_state)"

section \<open>Collaborators: Postgres, Redis and the publish/subscribe bus\<close>

text \<open>
  The payload of a published event: \<open>{ notificationAdded, userId }\<close>, the second field
  being present only where the publisher puts it.
\<close>

record payload =
  notificationAdded :: "(string, js_date) Notification"
  payload_userId :: "string option"

text \<open>
  The bus keeps no history: \<open>publish\<close> hands the payload to the iterators that are
  subscribed to the very topic at that moment. \<open>subscribers\<close> pairs each iterator with its
  topic, \<open>delivered\<close> pairs each iterator with what it received, in order.
\<close>

record pubsub =
  subscribers :: "(nat \<times> string) list"
  delivered :: "(nat \<times> payload) list"

definition pubsub_publish :: "string \<Rightarrow> payload \<Rightarrow> pubsub \<Rightarrow> pubsub" where
  "pubsub_publish topic p b =
     b\<lparr>delivered := delivered b @ map (\<lambda>(it, t). (it, p)) (filter (\<lambda>(it, t). t = topic) (subscribers b))\<rparr>"

definition pubsub_asyncIterator :: "string \<Rightarrow> pubsub \<Rightarrow> nat \<times> pubsub" where
  "pubsub_asyncIterator topic b =
     (length (subscribers b), b\<lparr>subscribers := subscribers b @ [(length (subscribers b), topic)]\<rparr>)"

definition received :: "pubsub \<Rightarrow> nat \<Rightarrow> payload list" where
  "received b it = map snd (filter (\<lambda>(i, p). i = it) (delivered b))"

text \<open>
  The Redis key \<open>notifications:${userId}:${cursor || 'latest'}\<close> is the pair of the user
  and the optional cursor; the pattern \<open>notifications:${userId}:*\<close> selects the keys of that
  user.
\<close>

type_synonym cache_key = "string \<times> timestamp option"

datatype event =
  Select string "timestamp option" int
  | Insert string string string
  | UpdateState string nat
  | Delete timestamp nat
  | Get cache_key
  | Set cache_key nat
  | Keys string
  | Del "cache_key list"
  | Publish string payload
  | Timeout nat

type_synonym row = "(string, timestamp) Notification"

text \<open>
  The state of the collaborators: the table \<open>notifications\<close> with its \<open>SERIAL\<close> sequence, the
  Redis keys with their values and expiry in seconds, the bus, and the calls made so far.
  \<open>'c\<close> is what the cache holds.
\<close>

record 'c world =
  pg_notifications :: "row list"
  pg_serial :: nat
  redis :: "(cache_key \<times> 'c \<times> nat) list"
  bus :: pubsub
  trace :: "event list"

definition logged :: "event \<Rightarrow> 'c world \<Rightarrow> 'c world" where
  "logged e w = w\<lparr>trace := trace w @ [e]\<rparr>"

subsection \<open>Redis\<close>

definition redis_get :: "cache_key \<Rightarrow> 'c world \<Rightarrow> 'c option \<times> 'c world" where
  "redis_get k w = (map_option fst (map_of (redis w) k), logged (Get k) w)"

definition redis_set :: "cache_key \<Rightarrow> 'c \<Rightarrow> nat \<Rightarrow> 'c world \<Rightarrow> 'c world" where
  "redis_set k v ex w = logged (Set k ex) (w\<lparr>redis := AList.update k (v, ex) (redis w)\<rparr>)"

definition redis_keys :: "string \<Rightarrow> 'c world \<Rightarrow> cache_key list \<times> 'c world" where
  "redis_keys u w = (map fst (filter (\<lambda>(k, v). fst k = u) (redis w)), logged (Keys u) w)"

definition redis_del :: "cache_key list \<Rightarrow> 'c world \<Rightarrow> 'c world" where
  "redis_del ks w = logged (Del ks) (w\<lparr>redis := filter (\<lambda>(k, v). k \<notin> set ks) (redis w)\<rparr>)"

subsection \<open>Postgres\<close>

text \<open>The constraint \<open>state_check\<close> and the column widths of the schema.\<close>

definition state_check :: "string list" where
  "state_check = [''UNREAD'', ''READ'', ''DISMISSED'']"

datatype pg_param = PText string | PTimestamp timestamp | PInteger int

text \<open>\<open>$n\<close> in a statement is the \<open>n\<close>-th of the values sent with it, if there is one.\<close>

definition placeholder :: "pg_param list \<Rightarrow> nat \<Rightarrow> pg_param option" where
  "placeholder params n = (if 0 < n \<and> n \<le> length params then Some (params ! (n - 1)) else None)"

text \<open>
  The rows of one user that are not in the excluded state and, with a cursor, strictly older
  than it, newest first. Rows of equal \<open>created_at\<close> come in table order.
\<close>

definition feed_rows :: "row list \<Rightarrow> string \<Rightarrow> string \<Rightarrow> timestamp option \<Rightarrow> row list" where
  "feed_rows rows u excluded cur =
     sort_key (\<lambda>r. - createdAt r)
       (filter (\<lambda>r. userId r = u \<and> state r \<noteq> excluded \<and>
                     (case cur of None \<Rightarrow> True | Some c \<Rightarrow> createdAt r < c)) rows)"

text \<open>
  \<open>SELECT * FROM notifications WHERE user_id = $u AND state != <excluded> [AND created_at < $c]
  ORDER BY created_at DESC LIMIT $l\<close>. The arguments \<open>u\<close>, \<open>c\<close> and \<open>l\<close> are the numbers of
  the placeholders as the statement text has them; the excluded state is a literal of the text
  (\<open>Inl\<close>) or a placeholder (\<open>Inr\<close>). A placeholder without a value, a value of the wrong type
  and a negative \<open>LIMIT\<close> make the statement fail.
\<close>

definition pg_select ::
  "nat \<Rightarrow> string + nat \<Rightarrow> nat option \<Rightarrow> nat \<Rightarrow> pg_param list \<Rightarrow> 'c world \<Rightarrow> (error + row list) \<times> 'c world" where
  "pg_select u excl c l params w =
     (case (placeholder params u,
            (case excl of Inl lit \<Rightarrow> Some (PText lit) | Inr e \<Rightarrow> placeholder params e),
            (case c of None \<Rightarrow> Some None | Some n \<Rightarrow> map_option Some (placeholder params n)),
            placeholder params l) of
        (Some (PText user), Some (PText excluded), Some None, Some (PInteger lim)) \<Rightarrow>
          if lim < 0 then (Inl (DatabaseError ''LIMIT must not be negative''), logged (Select user None lim) w)
          else (Inr (take (nat lim) (feed_rows (pg_notifications w) user excluded None)),
                logged (Select user None lim) w)
      | (Some (PText user), Some (PText excluded), Some (Some (PTimestamp cur)), Some (PInteger lim)) \<Rightarrow>
          if lim < 0 then (Inl (DatabaseError ''LIMIT must not be negative''), logged (Select user (Some cur) lim) w)
          else (Inr (take (nat lim) (feed_rows (pg_notifications w) user excluded (Some cur))),
                logged (Select user (Some cur) lim) w)
      | _ \<Rightarrow> (Inl (DatabaseError ''bind message does not match the statement''), w))"

text \<open>
  \<open>INSERT INTO notifications (user_id, message, state) VALUES ($1, $2, $3) RETURNING *\<close>:
  \<open>id\<close> is the next value of the sequence, \<open>created_at\<close> defaults to the database clock,
  here \<open>now\<close>.
\<close>

definition pg_insert ::
  "string \<Rightarrow> string \<Rightarrow> string \<Rightarrow> timestamp \<Rightarrow> 'c world \<Rightarrow> (error + row list) \<times> 'c world" where
  "pg_insert u m s now w =
     (if 255 < length u \<or> s \<notin> set state_check
      then (Inl (DatabaseError ''constraint''), logged (Insert u m s) w)
      else (let r = \<lparr>id' = Suc (pg_serial w), userId = u, message = m, state = s, createdAt = now\<rparr>
            in (Inr [r],
                logged (Insert u m s)
                  (w\<lparr>pg_notifications := pg_notifications w @ [r], pg_serial := Suc (pg_serial w)\<rparr>))))"

text \<open>\<open>UPDATE notifications SET state = $1 WHERE id = $2 RETURNING *\<close>\<close>

definition pg_update ::
  "string \<Rightarrow> nat \<Rightarrow> 'c world \<Rightarrow> (error + row list) \<times> 'c world" where
  "pg_update s i w =
     (if (\<exists>r \<in> set (pg_notifications w). id' r = i) \<and> s \<notin> set state_check
      then (Inl (DatabaseError ''constraint''), logged (UpdateState s i) w)
      else (Inr (map (\<lambda>r. r\<lparr>state := s\<rparr>) (filter (\<lambda>r. id' r = i) (pg_notifications w))),
            logged (UpdateState s i)
              (w\<lparr>pg_notifications :=
                    map (\<lambda>r. if id' r = i then r\<lparr>state := s\<rparr> else r) (pg_notifications w)\<rparr>)))"



subsection \<open>Calls on the world\<close>

definition publish :: "string \<Rightarrow> payload \<Rightarrow> 'c world \<Rightarrow> 'c world" where
  "publish topic p w = logged (Publish topic p) (w\<lparr>bus := pubsub_publish topic p (bus w)\<rparr>)"

definition asyncIterator :: "string \<Rightarrow> 'c world \<Rightarrow> nat \<times> 'c world" where
  "asyncIterator topic w = (fst (pubsub_asyncIterator topic (bus w)),
                            w\<lparr>bus := snd (pubsub_asyncIterator topic (bus w))\<rparr>)"

text \<open>
  \<open>const keys = await redis.keys(`notifications:${userId}:*`);
  if (keys.length > 0) await redis.del(keys)\<close>, as all three writers have it.
\<close>

definition invalidateCache :: "string \<Rightarrow> 'c world \<Rightarrow> 'c world" where
  "invalidateCache u w =
     (let (ks, w1) = redis_keys u w
      in if ks \<noteq> [] then redis_del ks w1 else w1)"

section \<open>Connections\<close>

record NotificationEdge =
  node :: "(string, js_date) Notification"
  cursor :: timestamp

record PageInfo =
  hasNextPage :: bool
  endCursor :: "timestamp option"

record NotificationConnection =
  edges :: "NotificationEdge list"
  pageInfo :: PageInfo

text \<open>\<open>xs.slice(0, n)\<close>: a negative \<open>n\<close> counts from the end.\<close>

definition slice0 :: "'a list \<Rightarrow> int \<Rightarrow> 'a list" where
  "slice0 xs n = (if 0 \<le> n then take (nat n) xs else take (length xs - nat (- n)) xs)"

text \<open>
  \<open>JSON.parse(JSON.stringify(v))\<close>: a \<open>Date\<close> comes back as the string of its \<open>toJSON\<close>,
  everything else in these values as it was.
\<close>

definition JSON_date :: "js_date \<Rightarrow> js_date" where
  "JSON_date d = (case d of Date t \<Rightarrow> ISOString t | ISOString t \<Rightarrow> ISOString t)"

definition JSON_notification :: "(string, js_date) Notification \<Rightarrow> (string, js_date) Notification" where
  "JSON_notification n = n\<lparr>createdAt := JSON_date (createdAt n)\<rparr>"

definition JSON_connection :: "NotificationConnection \<Rightarrow> NotificationConnection" where
  "JSON_connection c = c\<lparr>edges := map (\<lambda>e. e\<lparr>node := JSON_notification (node e)\<rparr>) (edges c)\<rparr>"

section \<open>scalable-notification-service.js\<close>

definition CACHE_TTL :: nat where
  "CACHE_TTL = 300"

definition js_node :: "row \<Rightarrow> (string, js_date) Notification" where
  "js_node r = \<lparr>id' = id' r, userId = userId r, message = message r, state = state r,
                createdAt = ISOString (createdAt r)\<rparr>"

text \<open>
  The connection the resolver assembles from the rows of the query: \<open>hasNextPage\<close>,
  \<open>edges\<close> and \<open>result\<close>.
\<close>

definition js_result :: "row list \<Rightarrow> int \<Rightarrow> NotificationConnection" where
  "js_result rows limit =
     (let hasNext = (limit < int (length rows));
          es = map (\<lambda>r. \<lparr>node = js_node r, cursor = createdAt r\<rparr>) (slice0 rows limit)
      in \<lparr>edges = es,
          pageInfo = \<lparr>hasNextPage = hasNext,
                      endCursor = (if es \<noteq> [] then Some (cursor (last es)) else None)\<rparr>\<rparr>)"

definition js_getNotificationsForUser ::
  "NotificationConnection world \<Rightarrow> string \<Rightarrow> timestamp option \<Rightarrow> int option \<Rightarrow>
   (error + NotificationConnection) \<times> NotificationConnection world" where
  "js_getNotificationsForUser w u cur lim =
     (let limit = (case lim of None \<Rightarrow> 20 | Some l \<Rightarrow> l);
          cacheKey = (u, cur);
          (cached, w1) = redis_get cacheKey w
      in case cached of
           Some c \<Rightarrow> (Inr c, w1)
         | None \<Rightarrow>
             (let params = (case cur of
                              Some c \<Rightarrow> [PText u, PInteger (limit + 1), PTimestamp c]
                            | None \<Rightarrow> [PText u, PInteger (limit + 1)]);
                  (res, w2) = pg_select 1 (Inl ''DISMISSED'')
                                (case cur of Some c \<Rightarrow> Some 3 | None \<Rightarrow> None) 2 params w1
              in case res of
                   Inl e \<Rightarrow> (Inl e, w2)
                 | Inr rows \<Rightarrow>
                     (let result = js_result rows limit
                      in (Inr result, redis_set cacheKey (JSON_connection result) CACHE_TTL w2))))"

definition js_updateUserNotification ::
  "'c world \<Rightarrow> nat \<Rightarrow> string \<Rightarrow> (error + (string, js_date) Notification) \<times> 'c world" where
  "js_updateUserNotification w i s =
     (let (res, w1) = pg_update s i w
      in case res of
           Inl e \<Rightarrow> (Inl e, w1)
         | Inr [] \<Rightarrow> (Inl NotFound, w1)
         | Inr (r # rs) \<Rightarrow> (Inr (js_node r), invalidateCache (userId r) w1))"

definition js_createNotification ::
  "'c world \<Rightarrow> string \<Rightarrow> string \<Rightarrow> timestamp \<Rightarrow> (error + (string, js_date) Notification) \<times> 'c world" where
  "js_createNotification w u m now =
     (let (res, w1) = pg_insert u m ''UNREAD'' now w
      in case res of
           Inl e \<Rightarrow> (Inl e, w1)
         | Inr [] \<Rightarrow> (Inl (TypeError ''rows[0] is undefined''), w1)
         | Inr (r # rs) \<Rightarrow>
             (let notification = js_node r;
                  w2 = invalidateCache u w1
              in (Inr notification,
                  publish ''NOTIFICATION_ADDED''
                    \<lparr>notificationAdded = notification, payload_userId = Some u\<rparr> w2)))"

definition js_notificationAdded :: "'c world \<Rightarrow> string \<Rightarrow> nat \<times> 'c world" where
  "js_notificationAdded w u = asyncIterator (''NOTIFICATION_ADDED:'' @ u) w"

section \<open>typescript-notification-service.ts\<close>

definition mapNotification :: "row \<Rightarrow> (string, js_date) Notification" where
  "mapNotification r = \<lparr>id' = id' r, userId = userId r, message = message r, state = state r,
                        createdAt = Date (createdAt r)\<rparr>"

type_synonym ts_world = "(string, js_date) Notification list world"

definition Database_getNotificationsForUser ::
  "ts_world \<Rightarrow> string \<Rightarrow> timestamp option \<Rightarrow> int option \<Rightarrow>
   (error + (string, js_date) Notification list) \<times> ts_world" where
  "Database_getNotificationsForUser w u cur lim =
     (let limit = (case lim of None \<Rightarrow> 20 | Some l \<Rightarrow> l);
          cacheKey = (u, cur);
          (cached, w1) = redis_get cacheKey w
      in case cached of
           Some ns \<Rightarrow> (Inr ns, w1)
         | None \<Rightarrow>
             (let params = (case cur of
                              Some c \<Rightarrow> [PText u, PText ''DISMISSED'', PTimestamp c, PInteger limit]
                            | None \<Rightarrow> [PText u, PText ''DISMISSED'', PInteger limit]);
                  (res, w2) = pg_select 1 (Inr 2)
                                (case cur of Some c \<Rightarrow> Some 3 | None \<Rightarrow> None) 4 params w1
              in case res of
                   Inl e \<Rightarrow> (Inl e, w2)
                 | Inr rows \<Rightarrow>
                     (let ns = map mapNotification rows
                      in (Inr ns, redis_set cacheKey (map JSON_notification ns) 300 w2))))"

definition Database_createNotification ::
  "'c world \<Rightarrow> string \<Rightarrow> string \<Rightarrow> timestamp \<Rightarrow> (error + (string, js_date) Notification) \<times> 'c world" where
  "Database_createNotification w u m now =
     (let (res, w1) = pg_insert u m ''UNREAD'' now w
      in case res of
           Inl e \<Rightarrow> (Inl e, w1)
         | Inr rows \<Rightarrow>
             (let w2 = invalidateCache u w1
              in case rows of
                   [] \<Rightarrow> (Inl (TypeError ''rows[0] is undefined''), w2)
                 | r # rs \<Rightarrow> (Inr (mapNotification r), w2)))"

definition Database_updateNotification ::
  "'c world \<Rightarrow> nat \<Rightarrow> string \<Rightarrow> (error + (string, js_date) Notification) \<times> 'c world" where
  "Database_updateNotification w i s =
     (let (res, w1) = pg_update s i w
      in case res of
           Inl e \<Rightarrow> (Inl e, w1)
         | Inr [] \<Rightarrow> (Inl NotFound, w1)
         | Inr (r # rs) \<Rightarrow> (Inr (mapNotification r), invalidateCache (userId r) w1))"



text \<open>\<open>notification.createdAt.toISOString()\<close>: a method of \<open>Date\<close>, not of a string.\<close>

fun toISOString :: "js_date \<Rightarrow> error + timestamp" where
  "toISOString (Date t) = Inr t"
| "toISOString (ISOString t) = Inl (TypeError ''toISOString is not a function'')"

fun ts_edges :: "(string, js_date) Notification list \<Rightarrow> error + NotificationEdge list" where
  "ts_edges [] = Inr []"
| "ts_edges (n # ns) =
     (case toISOString (createdAt n) of
        Inl e \<Rightarrow> Inl e
      | Inr c \<Rightarrow> (case ts_edges ns of
                    Inl e \<Rightarrow> Inl e
                  | Inr es \<Rightarrow> Inr (\<lparr>node = n, cursor = c\<rparr> # es)))"

text \<open>
  The resolver passes its own \<open>limit\<close> on; where the caller gave none, \<open>length > undefined\<close>
  is false and \<open>slice(0, undefined)\<close> is the whole array.
\<close>

definition ts_getNotificationsForUser ::
  "ts_world \<Rightarrow> string \<Rightarrow> timestamp option \<Rightarrow> int option \<Rightarrow>
   (error + NotificationConnection) \<times> ts_world" where
  "ts_getNotificationsForUser w u cur lim =
     (let (res, w1) = Database_getNotificationsForUser w u cur lim
      in case res of
           Inl e \<Rightarrow> (Inl e, w1)
         | Inr ns \<Rightarrow>
             (let hasNext = (case lim of None \<Rightarrow> False | Some l \<Rightarrow> l < int (length ns));
                  sliced = (case lim of None \<Rightarrow> ns | Some l \<Rightarrow> slice0 ns l)
              in case ts_edges sliced of
                   Inl e \<Rightarrow> (Inl e, w1)
                 | Inr es \<Rightarrow>
                     (Inr \<lparr>edges = es,
                           pageInfo = \<lparr>hasNextPage = hasNext,
                                       endCursor = (if es \<noteq> [] then Some (cursor (last es)) else None)\<rparr>\<rparr>,
                      w1)))"

definition ts_createNotification ::
  "'c world \<Rightarrow> string \<Rightarrow> string \<Rightarrow> timestamp \<Rightarrow> (error + (string, js_date) Notification) \<times> 'c world" where
  "ts_createNotification w u m now =
     (let (res, w1) = Database_createNotification w u m now
      in case res of
           Inl e \<Rightarrow> (Inl e, w1)
         | Inr notification \<Rightarrow>
             (Inr notification,
              publish (''NOTIFICATION_ADDED:'' @ u)
                \<lparr>notificationAdded = notification, payload_userId = None\<rparr> w1))"

definition ts_updateNotification ::
  "'c world \<Rightarrow> nat \<Rightarrow> string \<Rightarrow> (error + (string, js_date) Notification) \<times> 'c world" where
  "ts_updateNotification w i s = Database_updateNotification w i s"

definition ts_notificationAdded :: "'c world \<Rightarrow> string \<Rightarrow> nat \<times> 'c world" where
  "ts_notificationAdded w u = asyncIterator (''NOTIFICATION_ADDED:'' @ u) w"

subsection \<open>CleanupJob\<close>






section \<open>The in-memory server\<close>

text \<open>
  \<open>notifications\<close> is a \<open>Map\<close> from the id to the notification; the id is
  \<open>Date.now().toString()\<close>, the clock reading \<open>now\<close>, and \<open>createdAt\<close> a second reading.
\<close>

record mem_server =
  notifications :: "(nat \<times> (string, js_date) Notification) list"
  pubsub :: pubsub

definition mem_getNotificationsForUser :: "mem_server \<Rightarrow> string \<Rightarrow> (string, js_date) Notification list" where
  "mem_getNotificationsForUser s u =
     filter (\<lambda>note. userId note = u \<and> state note \<noteq> ''DISMISSED'') (map snd (notifications s))"

definition mem_updateUserNotification ::
  "mem_server \<Rightarrow> nat \<Rightarrow> string \<Rightarrow> (error + (string, js_date) Notification) \<times> mem_server" where
  "mem_updateUserNotification s i st =
     (case map_of (notifications s) i of
        None \<Rightarrow> (Inl NotFound, s)
      | Some notification \<Rightarrow>
          (Inr (notification\<lparr>state := st\<rparr>),
           s\<lparr>notifications := AList.update i (notification\<lparr>state := st\<rparr>) (notifications s)\<rparr>))"

definition mem_createNotification ::
  "mem_server \<Rightarrow> string \<Rightarrow> string \<Rightarrow> timestamp \<Rightarrow> timestamp \<Rightarrow>
   (string, js_date) Notification \<times> mem_server" where
  "mem_createNotification s u m now now' =
     (let notification = \<lparr>id' = nat now, userId = u, message = m, state = ''UNREAD'',
                          createdAt = ISOString now'\<rparr>
      in (notification,
          s\<lparr>notifications := AList.update (id' notification) notification (notifications s),
            pubsub := pubsub_publish ''NOTIFICATION_ADDED''
                        \<lparr>notificationAdded = notification, payload_userId = Some u\<rparr> (pubsub s)\<rparr>))"

definition mem_notificationAdded :: "mem_server \<Rightarrow> string \<Rightarrow> nat \<times> mem_server" where
  "mem_notificationAdded s u =
     (fst (pubsub_asyncIterator ''NOTIFICATION_ADDED'' (pubsub s)),
      s\<lparr>pubsub := snd (pubsub_asyncIterator ''NOTIFICATION_ADDED'' (pubsub s))\<rparr>)"

section \<open>Vocabulary of the statements, and example states\<close>

text \<open>A connection, or a cache, without a dismissed notification in it.\<close>

definition no_dismissed :: "NotificationConnection \<Rightarrow> bool" where
  "no_dismissed c = list_all (\<lambda>e. state (node e) \<noteq> ''DISMISSED'') (edges c)"


definition cache_all :: "('c \<Rightarrow> bool) \<Rightarrow> 'c world \<Rightarrow> bool" where
  "cache_all P w = list_all (\<lambda>(k, v, ex). P v) (redis w)"

definition empty_db :: prisma_db where
  "empty_db = \<lparr>prisma_notification = [], prisma_autoincrement = 0, prisma_log = []\<rparr>"

definition empty_world :: "'c world" where
  "empty_world = \<lparr>pg_notifications = [], pg_serial = 0, redis = [],
                   bus = \<lparr>subscribers = [], delivered = []\<rparr>, trace = []\<rparr>"

definition empty_server :: mem_server where
  "empty_server = \<lparr>notifications = [], pubsub = \<lparr>subscribers = [], delivered = []\<rparr>\<rparr>"

text \<open>A notification is created and then dismissed, or auto-dismissed.\<close>

definition dismissed_db :: prisma_db where
  "dismissed_db =
     snd (prisma_updateUserNotification
            (snd (prisma_createNotification empty_db ''hello'' 7 1000)) 1 ''DISMISSED'')"

definition autodismissed_db :: prisma_db where
  "autodismissed_db =
     snd (prisma_updateUserNotification
            (snd (prisma_createNotification empty_db ''hello'' 7 1000)) 1 ''AUTODISMISSED'')"

definition viewed_db :: prisma_db where
  "viewed_db =
     dismissed_db\<lparr>prisma_notification :=
          [\<lparr>id' = 1, userId = 7, message = ''hello'', state = ''VIEWED'', createdAt = 1000\<rparr>],
        prisma_log := [Create ''hello'' 7, Update 1 ''DISMISSED'', Update 1 ''VIEWED'']\<rparr>"

text \<open>A world with one dismissed row, and a server with one dismissed notification.\<close>

definition dismissed_world :: "'c world" where
  "dismissed_world =
     empty_world\<lparr>pg_notifications :=
        [\<lparr>id' = 1, userId = ''u1'', message = ''hello'', state = ''DISMISSED'', createdAt = 1000\<rparr>],
       pg_serial := 1\<rparr>"

definition dismissed_server :: mem_server where
  "dismissed_server =
     empty_server\<lparr>notifications :=
        [(1000, \<lparr>id' = 1000, userId = ''u1'', message = ''hello'', state = ''DISMISSED'',
                 createdAt = ISOString 1000\<rparr>)]\<rparr>"

definition read_server :: mem_server where
  "read_server =
     dismissed_server\<lparr>notifications :=
        [(1000, \<lparr>id' = 1000, userId = ''u1'', message = ''hello'', state = ''READ'',
                 createdAt = ISOString 1000\<rparr>)]\<rparr>"

text \<open>Two rows of two users, before and after the first is read.\<close>

definition two_rows :: "'c world" where
  "two_rows =
     empty_world\<lparr>pg_notifications :=
        [\<lparr>id' = 1, userId = ''u1'', message = ''first'', state = ''UNREAD'', createdAt = 1000\<rparr>,
         \<lparr>id' = 2, userId = ''u2'', message = ''second'', state = ''UNREAD'', createdAt = 2000\<rparr>],
       pg_serial := 2\<rparr>"

definition two_rows_read :: "'c world" where
  "two_rows_read =
     two_rows\<lparr>pg_notifications :=
        [\<lparr>id' = 1, userId = ''u1'', message = ''first'', state = ''READ'', createdAt = 1000\<rparr>,
         \<lparr>id' = 2, userId = ''u2'', message = ''second'', state = ''UNREAD'', createdAt = 2000\<rparr>],
        trace := [UpdateState ''READ'' 1, Keys ''u1'']\<rparr>"

text \<open>Three rows of one user, the second dismissed.\<close>

definition mixed_world :: "'c world" where
  "mixed_world =
     empty_world\<lparr>pg_notifications :=
        [\<lparr>id' = 1, userId = ''u1'', message = ''first'', state = ''UNREAD'', createdAt = 1000\<rparr>,
         \<lparr>id' = 2, userId = ''u1'', message = ''second'', state = ''DISMISSED'', createdAt = 2000\<rparr>,
         \<lparr>id' = 3, userId = ''u1'', message = ''third'', state = ''READ'', createdAt = 3000\<rparr>],
       pg_serial := 3\<rparr>"


text \<open>
  A client of \<open>u1\<close> has subscribed to \<open>notificationAdded\<close> of the JavaScript service, and a
  client of \<open>u2\<close> to that of the in-memory server.
\<close>

definition subscribed_world :: "'c world" where
  "subscribed_world = snd (js_notificationAdded empty_world ''u1'')"

definition subscribed_server :: mem_server where
  "subscribed_server = snd (mem_notificationAdded empty_server ''u2'')"















section \<open>Lemmas about the collaborators and the resolvers\<close>


lemma invalidateCache_redis:
  "redis (invalidateCache u w) = filter (\<lambda>(k, v). fst k \<noteq> u) (redis w)"
proof -
  have "filter (\<lambda>(k, v). k \<notin> set (map fst (filter (\<lambda>(k, v). fst k = u) al))) al
        = filter (\<lambda>(k, v). fst k \<noteq> u) al" for al :: "(cache_key \<times> 'a \<times> nat) list"
    by (rule filter_cong) force+
  moreover have "filter (\<lambda>(k, v). fst k = u) al = [] \<Longrightarrow> filter (\<lambda>(k, v). fst k \<noteq> u) al = al"
    for al :: "(cache_key \<times> 'a \<times> nat) list"
    by (induction al) (auto split: if_splits)
  ultimately show ?thesis
    by (auto simp: invalidateCache_def redis_keys_def redis_del_def logged_def Let_def)
qed


lemma invalidateCache_pg [simp]:
  "pg_notifications (invalidateCache u w) = pg_notifications w"
  "pg_serial (invalidateCache u w) = pg_serial w"
  "bus (invalidateCache u w) = bus w"
  by (simp_all add: invalidateCache_def redis_keys_def redis_del_def logged_def Let_def)


lemma find_id_Some:
  "\<exists>n \<in> set xs. P n \<Longrightarrow> \<exists>n. find P xs = Some n \<and> P n \<and> n \<in> set xs"
  by (induction xs) auto

lemma prisma_update_sets:
  assumes "\<exists>n \<in> set (prisma_notification db). id' n = i" "s \<in> set NotificationState_values"
  shows "\<exists>n db'. prisma_updateUserNotification db i s = (Inr n, db') \<and> state n = s \<and> id' n = i \<and>
           (\<forall>m \<in> set (prisma_notification db'). id' m = i \<longrightarrow> state m = s)"
proof -
  from find_id_Some [OF assms(1)] obtain n where
    n: "find (\<lambda>n. id' n = i) (prisma_notification db) = Some n" "id' n = i" by blast
  then show ?thesis using assms(2)
    by (auto simp: prisma_updateUserNotification_def prisma_update_def Let_def)
qed

lemma pg_update_result:
  "pg_update s i w = (Inr rs, w') \<Longrightarrow>
     rs = map (\<lambda>r. r\<lparr>state := s\<rparr>) (filter (\<lambda>r. id' r = i) (pg_notifications w)) \<and>
     w' = logged (UpdateState s i)
            (w\<lparr>pg_notifications := map (\<lambda>r. if id' r = i then r\<lparr>state := s\<rparr> else r) (pg_notifications w)\<rparr>)"
  by (auto simp: pg_update_def split: if_splits)

lemma pg_update_ok:
  "s \<in> set state_check \<Longrightarrow>
   pg_update s i w =
     (Inr (map (\<lambda>r. r\<lparr>state := s\<rparr>) (filter (\<lambda>r. id' r = i) (pg_notifications w))),
      logged (UpdateState s i)
        (w\<lparr>pg_notifications := map (\<lambda>r. if id' r = i then r\<lparr>state := s\<rparr> else r) (pg_notifications w)\<rparr>))"
  by (simp add: pg_update_def)

lemma Database_update_sets:
  assumes "\<exists>r \<in> set (pg_notifications w). id' r = i" "s \<in> set state_check"
  shows "\<exists>n w'. Database_updateNotification w i s = (Inr n, w') \<and> state n = s \<and> id' n = i \<and>
           (\<forall>m \<in> set (pg_notifications w'). id' m = i \<longrightarrow> state m = s)"
proof -
  from assms(1) obtain r rs where
    f: "filter (\<lambda>r. id' r = i) (pg_notifications w) = r # rs"
    by (cases "filter (\<lambda>r. id' r = i) (pg_notifications w)") (auto simp: filter_empty_conv)
  have "r \<in> set (filter (\<lambda>r. id' r = i) (pg_notifications w))"
    by (simp only: f list.set_intros)
  then have r: "id' r = i" by simp
  have "Database_updateNotification w i s =
          (Inr (mapNotification (r\<lparr>state := s\<rparr>)),
           invalidateCache (userId r) (logged (UpdateState s i)
        (w\<lparr>pg_notifications := map (\<lambda>r. if id' r = i then r\<lparr>state := s\<rparr> else r) (pg_notifications w)\<rparr>)))"
    by (simp add: Database_updateNotification_def pg_update_ok [OF assms(2)] f)
  then show ?thesis using r
    by (auto simp: mapNotification_def logged_def)
qed

lemma mem_update_sets:
  assumes "map_of (notifications ms) i = Some old"
  shows "\<exists>n ms'. mem_updateUserNotification ms i s = (Inr n, ms') \<and> state n = s \<and>
           map_of (notifications ms') i = Some n"
  using assms by (simp add: mem_updateUserNotification_def update_conv')

lemma pg_select_js:
  "pg_select 1 (Inl ''DISMISSED'') (case cur of Some c \<Rightarrow> Some 3 | None \<Rightarrow> None) 2
     (case cur of Some c \<Rightarrow> [PText u, PInteger n, PTimestamp c] | None \<Rightarrow> [PText u, PInteger n]) w =
   (if n < 0 then (Inl (DatabaseError ''LIMIT must not be negative''), logged (Select u cur n) w)
    else (Inr (take (nat n) (feed_rows (pg_notifications w) u ''DISMISSED'' cur)), logged (Select u cur n) w))"
  by (cases cur) (simp_all add: pg_select_def placeholder_def)

lemma pg_select_ts_cursor:
  "pg_select 1 (Inr 2) (Some 3) 4 [PText u, PText ''DISMISSED'', PTimestamp c, PInteger n] w =
   (if n < 0 then (Inl (DatabaseError ''LIMIT must not be negative''), logged (Select u (Some c) n) w)
    else (Inr (take (nat n) (feed_rows (pg_notifications w) u ''DISMISSED'' (Some c))), logged (Select u (Some c) n) w))"
  by (simp add: pg_select_def placeholder_def)

lemma pg_select_ts_latest:
  "pg_select 1 (Inr 2) None 4 [PText u, PText ''DISMISSED'', PInteger n] w =
   (Inl (DatabaseError ''bind message does not match the statement''), w)"
  by (simp add: pg_select_def placeholder_def)

lemma JSON_js_result [simp]: "JSON_connection (js_result rows limit) = js_result rows limit"
  by (simp add: JSON_connection_def js_result_def JSON_notification_def js_node_def JSON_date_def o_def Let_def)

lemma logged_fields [simp]:
  "pg_notifications (logged e w) = pg_notifications w"
  "pg_serial (logged e w) = pg_serial w"
  "redis (logged e w) = redis w"
  "bus (logged e w) = bus w"
  "trace (logged e w) = trace w @ [e]"
  by (simp_all add: logged_def)

lemma js_get_hit:
  "map_of (redis w) (u, cur) = Some (c, ttl) \<Longrightarrow>
   js_getNotificationsForUser w u cur lim = (Inr c, logged (Get (u, cur)) w)"
  by (simp add: js_getNotificationsForUser_def redis_get_def)

lemma js_get_miss:
  assumes "map_of (redis w) (u, cur) = None"
  shows "js_getNotificationsForUser w u cur lim =
     (if (case lim of None \<Rightarrow> 20 | Some l \<Rightarrow> l) + 1 < 0
      then (Inl (DatabaseError ''LIMIT must not be negative''),
            logged (Select u cur ((case lim of None \<Rightarrow> 20 | Some l \<Rightarrow> l) + 1)) (logged (Get (u, cur)) w))
      else (Inr (js_result (take (nat ((case lim of None \<Rightarrow> 20 | Some l \<Rightarrow> l) + 1))
                           (feed_rows (pg_notifications w) u ''DISMISSED'' cur))
                   (case lim of None \<Rightarrow> 20 | Some l \<Rightarrow> l)),
            redis_set (u, cur)
              (js_result (take (nat ((case lim of None \<Rightarrow> 20 | Some l \<Rightarrow> l) + 1))
                           (feed_rows (pg_notifications w) u ''DISMISSED'' cur))
                   (case lim of None \<Rightarrow> 20 | Some l \<Rightarrow> l))
              CACHE_TTL
              (logged (Select u cur ((case lim of None \<Rightarrow> 20 | Some l \<Rightarrow> l) + 1)) (logged (Get (u, cur)) w))))"
  unfolding js_getNotificationsForUser_def Let_def redis_get_def pg_select_js
  using assms by simp

lemma set_feed_rows:
  "set (feed_rows rows u excluded cur) =
     {r \<in> set rows. userId r = u \<and> state r \<noteq> excluded \<and>
                     (case cur of None \<Rightarrow> True | Some c \<Rightarrow> createdAt r < c)}"
  by (simp add: feed_rows_def)

lemma set_slice0: "set (slice0 xs n) \<subseteq> set xs"
  by (auto simp: slice0_def dest: in_set_takeD)

lemma list_all_update:
  "P (k, v) \<Longrightarrow> list_all P al \<Longrightarrow> list_all P (AList.update k v al)"
  by (induction al) auto

lemma cache_all_logged [simp]: "cache_all P (logged e w) = cache_all P w"
  by (simp add: cache_all_def)

lemma cache_all_redis_set: "P v \<Longrightarrow> cache_all P w \<Longrightarrow> cache_all P (redis_set k v ex w)"
  by (simp add: cache_all_def redis_set_def list_all_update)

lemma cache_all_get:
  "cache_all P w \<Longrightarrow> map_of (redis w) k = Some (v, ex) \<Longrightarrow> P v"
  by (auto simp: cache_all_def list_all_iff dest!: map_of_SomeD)

lemma cache_all_invalidate: "cache_all P w \<Longrightarrow> cache_all P (invalidateCache u w)"
  by (simp add: cache_all_def invalidateCache_redis list_all_iff)

lemma js_result_no_dismissed:
  "\<forall>r \<in> set rows. state r \<noteq> ''DISMISSED'' \<Longrightarrow> no_dismissed (js_result rows l)"
  using set_slice0 [of rows l]
  by (auto simp: no_dismissed_def js_result_def Let_def list_all_iff js_node_def)

lemma js_get_no_dismissed:
  assumes "cache_all no_dismissed w" "js_getNotificationsForUser w u cur lim = (Inr c, w')"
  shows "no_dismissed c \<and> cache_all no_dismissed w'"
proof (cases "map_of (redis w) (u, cur)")
  case None
  let ?l = "case lim of None \<Rightarrow> 20 | Some l \<Rightarrow> l"
  let ?rows = "take (nat (?l + 1)) (feed_rows (pg_notifications w) u ''DISMISSED'' cur)"
  have "\<forall>r \<in> set ?rows. state r \<noteq> ''DISMISSED''"
    by (auto dest!: in_set_takeD simp: set_feed_rows)
  then have nd: "no_dismissed (js_result ?rows ?l)"
    by (rule js_result_no_dismissed)
  from assms(2) have "c = js_result ?rows ?l"
    and "w' = redis_set (u, cur) (js_result ?rows ?l) CACHE_TTL (logged (Select u cur (?l + 1)) (logged (Get (u, cur)) w))"
    by (auto simp add: js_get_miss [OF None] split: if_splits)
  with nd assms(1) show ?thesis
    by (simp add: cache_all_redis_set)
next
  case (Some a)
  obtain c0 ex where a: "a = (c0, ex)" by (cases a)
  from assms(2) have "c = c0" "w' = logged (Get (u, cur)) w"
    by (simp_all add: js_get_hit [OF Some [unfolded a]])
  with assms(1) cache_all_get [OF assms(1) Some [unfolded a]] show ?thesis
    by simp
qed

lemma Database_get_hit:
  "map_of (redis w) (u, cur) = Some (ns, ttl) \<Longrightarrow>
   Database_getNotificationsForUser w u cur lim = (Inr ns, logged (Get (u, cur)) w)"
  by (simp add: Database_getNotificationsForUser_def redis_get_def)

lemma Database_get_miss_latest:
  "map_of (redis w) (u, None) = None \<Longrightarrow>
   Database_getNotificationsForUser w u None lim =
     (Inl (DatabaseError ''bind message does not match the statement''), logged (Get (u, None)) w)"
  unfolding Database_getNotificationsForUser_def Let_def redis_get_def option.case pg_select_ts_latest
  by simp

lemma Database_get_miss_cursor:
  "map_of (redis w) (u, Some c) = None \<Longrightarrow>
   Database_getNotificationsForUser w u (Some c) lim =
     (if (case lim of None \<Rightarrow> 20 | Some l \<Rightarrow> l) < 0
      then (Inl (DatabaseError ''LIMIT must not be negative''),
            logged (Select u (Some c) (case lim of None \<Rightarrow> 20 | Some l \<Rightarrow> l)) (logged (Get (u, Some c)) w))
      else (Inr (map mapNotification
                   (take (nat (case lim of None \<Rightarrow> 20 | Some l \<Rightarrow> l))
                      (feed_rows (pg_notifications w) u ''DISMISSED'' (Some c)))),
            redis_set (u, Some c)
              (map JSON_notification (map mapNotification
                   (take (nat (case lim of None \<Rightarrow> 20 | Some l \<Rightarrow> l))
                      (feed_rows (pg_notifications w) u ''DISMISSED'' (Some c)))))
              300
              (logged (Select u (Some c) (case lim of None \<Rightarrow> 20 | Some l \<Rightarrow> l)) (logged (Get (u, Some c)) w))))"
  unfolding Database_getNotificationsForUser_def Let_def redis_get_def option.case pg_select_ts_cursor
  by simp

lemma Database_get_no_dismissed:
  assumes "cache_all (list_all (\<lambda>n. state n \<noteq> ''DISMISSED'')) w"
    "Database_getNotificationsForUser w u cur lim = (Inr ns, w')"
  shows "list_all (\<lambda>n. state n \<noteq> ''DISMISSED'') ns \<and> cache_all (list_all (\<lambda>n. state n \<noteq> ''DISMISSED'')) w'"
proof (cases "map_of (redis w) (u, cur)")
  case None
  show ?thesis
  proof (cases cur)
    case N: None
    with None assms(2) show ?thesis by (simp add: Database_get_miss_latest)
  next
    case (Some c)
    let ?l = "case lim of None \<Rightarrow> 20 | Some l \<Rightarrow> l"
    let ?rows = "take (nat ?l) (feed_rows (pg_notifications w) u ''DISMISSED'' (Some c))"
    have a: "\<forall>r \<in> set ?rows. state r \<noteq> ''DISMISSED''"
      by (auto dest!: in_set_takeD simp: set_feed_rows)
    then have b: "list_all (\<lambda>n. state n \<noteq> ''DISMISSED'') (map mapNotification ?rows)"
      by (simp add: list_all_iff mapNotification_def)
    from a have b': "list_all (\<lambda>n. state n \<noteq> ''DISMISSED'') (map JSON_notification (map mapNotification ?rows))"
      by (simp add: list_all_iff mapNotification_def JSON_notification_def)
    from assms(2) None Some have "ns = map mapNotification ?rows"
      and "w' = redis_set (u, Some c) (map JSON_notification (map mapNotification ?rows)) 300
                 (logged (Select u (Some c) ?l) (logged (Get (u, Some c)) w))"
      by (auto simp add: Database_get_miss_cursor split: if_splits)
    with b b' assms(1) show ?thesis
      by (simp add: cache_all_redis_set)
  qed
next
  case (Some a)
  obtain c0 ex where a: "a = (c0, ex)" by (cases a)
  from assms(2) have "ns = c0" "w' = logged (Get (u, cur)) w"
    by (simp_all add: Database_get_hit [OF Some [unfolded a]])
  with assms(1) cache_all_get [OF assms(1) Some [unfolded a]] show ?thesis
    by simp
qed

lemma ts_edges_nodes: "ts_edges ns = Inr es \<Longrightarrow> map node es = ns"
  by (induction ns arbitrary: es) (auto split: sum.splits)

lemma ts_get_nodes:
  assumes "ts_getNotificationsForUser w u cur lim = (Inr c, w')"
  shows "\<exists>ns. Database_getNotificationsForUser w u cur lim = (Inr ns, w') \<and>
              set (map node (edges c)) \<subseteq> set ns"
proof -
  obtain res w1 where d: "Database_getNotificationsForUser w u cur lim = (res, w1)"
    by (cases "Database_getNotificationsForUser w u cur lim")
  with assms obtain ns where ns: "res = Inr ns"
    by (cases res) (auto simp: ts_getNotificationsForUser_def)
  let ?sl = "case lim of None \<Rightarrow> ns | Some l \<Rightarrow> slice0 ns l"
  from assms d ns obtain es where es: "ts_edges ?sl = Inr es" "edges c = es" "w' = w1"
    by (cases "ts_edges ?sl") (auto simp: ts_getNotificationsForUser_def Let_def)
  have "set ?sl \<subseteq> set ns"
    using set_slice0 [of ns] by (cases lim) auto
  with ts_edges_nodes [OF es(1)] es d ns show ?thesis by auto
qed

lemma Database_update_frame:
  assumes "Database_updateNotification w i s = (Inr n, w')"
  shows "pg_notifications w' = map (\<lambda>r. if id' r = i then r\<lparr>state := s\<rparr> else r) (pg_notifications w) \<and>
         pg_serial w' = pg_serial w \<and>
         (\<exists>r \<in> set (pg_notifications w). id' r = i \<and> n = mapNotification (r\<lparr>state := s\<rparr>))"
proof -
  obtain res w1 where u: "pg_update s i w = (res, w1)"
    by (cases "pg_update s i w")
  with assms obtain rs where res: "res = Inr rs"
    by (cases res) (auto simp: Database_updateNotification_def)
  note r = pg_update_result [OF u [unfolded res]]
  from assms u res obtain r0 rs0 where rs: "rs = r0 # rs0"
    by (cases rs) (auto simp: Database_updateNotification_def)
  with assms u res have n: "n = mapNotification r0" and w': "w' = invalidateCache (userId r0) w1"
    by (auto simp: Database_updateNotification_def)
  from r have e: "rs = map (\<lambda>r. r\<lparr>state := s\<rparr>) (filter (\<lambda>r. id' r = i) (pg_notifications w))"
    by (rule conjunct1)
  have "r0 \<in> set rs" by (simp add: rs)
  then have "r0 \<in> set (map (\<lambda>r. r\<lparr>state := s\<rparr>) (filter (\<lambda>r. id' r = i) (pg_notifications w)))"
    unfolding e .
  then obtain r1 where "r1 \<in> set (pg_notifications w)" "id' r1 = i" "r0 = r1\<lparr>state := s\<rparr>"
    by auto
  with n w' r show ?thesis by auto
qed

lemma prisma_update_frame:
  assumes "prisma_updateUserNotification db i s = (Inr n, db')"
  shows "prisma_notification db' = map (\<lambda>r. if id' r = i then r\<lparr>state := s\<rparr> else r) (prisma_notification db) \<and>
         prisma_autoincrement db' = prisma_autoincrement db \<and>
         (\<exists>r \<in> set (prisma_notification db). id' r = i \<and> n = r\<lparr>state := s\<rparr>)"
proof -
  from assms obtain r where f: "find (\<lambda>n. id' n = i) (prisma_notification db) = Some r"
    by (cases "find (\<lambda>n. id' n = i) (prisma_notification db)")
       (auto simp: prisma_updateUserNotification_def prisma_update_def Let_def split: if_splits)
  then have "r \<in> set (prisma_notification db)" "id' r = i"
    by (auto simp: find_Some_iff)
  with assms f show ?thesis
    by (auto simp: prisma_updateUserNotification_def prisma_update_def Let_def split: if_splits)
qed

lemma mem_update_frame:
  assumes "mem_updateUserNotification ms i s = (Inr n, ms')"
  shows "(\<exists>old. map_of (notifications ms) i = Some old \<and> n = old\<lparr>state := s\<rparr>) \<and>
         map_of (notifications ms') = (map_of (notifications ms))(i \<mapsto> n) \<and>
         pubsub ms' = pubsub ms"
  using assms
  by (auto simp: mem_updateUserNotification_def update_conv' split: option.splits)

lemma map_update_one:
  "distinct (map f xs) \<Longrightarrow> j < length xs \<Longrightarrow> f (xs ! j) = i \<Longrightarrow>
   map (\<lambda>r. if f r = i then g r else r) xs = xs[j := g (xs ! j)]"
proof (induction xs arbitrary: j)
  case Nil
  then show ?case by simp
next
  case (Cons x xs)
  show ?case
  proof (cases j)
    case 0
    have fx: "f x = i" using 0 Cons.prems(3) by simp
    have "f x \<notin> f ` set xs" using Cons.prems(1) by simp
    then have "\<forall>y \<in> set xs. f y \<noteq> i" unfolding fx by blast
    then have "map (\<lambda>r. if f r = i then g r else r) xs = xs"
      by (simp add: map_idI)
    with 0 fx show ?thesis by simp
  next
    case (Suc k)
    with Cons.prems have "f x \<noteq> i" by auto
    with Suc Cons show ?thesis by simp
  qed
qed

lemma pg_insert_ok:
  "pg_insert u m s now w = (Inr rs, w') \<Longrightarrow>
   rs = [\<lparr>id' = Suc (pg_serial w), userId = u, message = m, state = s, createdAt = now\<rparr>] \<and>
   w' = logged (Insert u m s)
          (w\<lparr>pg_notifications := pg_notifications w @ [\<lparr>id' = Suc (pg_serial w), userId = u, message = m, state = s, createdAt = now\<rparr>],
             pg_serial := Suc (pg_serial w)\<rparr>)"
  by (auto simp: pg_insert_def Let_def split: if_splits)

lemma publish_fields [simp]:
  "pg_notifications (publish t p w) = pg_notifications w"
  "pg_serial (publish t p w) = pg_serial w"
  "redis (publish t p w) = redis w"
  "bus (publish t p w) = pubsub_publish t p (bus w)"
  "trace (publish t p w) = trace w @ [Publish t p]"
  by (simp_all add: publish_def)

lemma Database_create_result:
  assumes "Database_createNotification w u m now = (Inr n, w')"
  shows "n = mapNotification \<lparr>id' = Suc (pg_serial w), userId = u, message = m, state = ''UNREAD'', createdAt = now\<rparr> \<and>
         w' = invalidateCache u (logged (Insert u m ''UNREAD'')
          (w\<lparr>pg_notifications := pg_notifications w @ [\<lparr>id' = Suc (pg_serial w), userId = u, message = m, state = ''UNREAD'', createdAt = now\<rparr>],
             pg_serial := Suc (pg_serial w)\<rparr>))"
proof -
  obtain res w1 where u: "pg_insert u m ''UNREAD'' now w = (res, w1)"
    by (cases "pg_insert u m ''UNREAD'' now w")
  with assms obtain rs where res: "res = Inr rs"
    by (cases res) (auto simp: Database_createNotification_def)
  from pg_insert_ok [OF u [unfolded res]] assms u res show ?thesis
    by (auto simp: Database_createNotification_def)
qed

lemma ts_create_result:
  assumes "ts_createNotification w u m now = (Inr n, w')"
  shows "Database_createNotification w u m now =
           (Inr n, invalidateCache u (logged (Insert u m ''UNREAD'')
          (w\<lparr>pg_notifications := pg_notifications w @ [\<lparr>id' = Suc (pg_serial w), userId = u, message = m, state = ''UNREAD'', createdAt = now\<rparr>],
             pg_serial := Suc (pg_serial w)\<rparr>))) \<and>
         w' = publish (''NOTIFICATION_ADDED:'' @ u) \<lparr>notificationAdded = n, payload_userId = None\<rparr>
                (invalidateCache u (logged (Insert u m ''UNREAD'')
          (w\<lparr>pg_notifications := pg_notifications w @ [\<lparr>id' = Suc (pg_serial w), userId = u, message = m, state = ''UNREAD'', createdAt = now\<rparr>],
             pg_serial := Suc (pg_serial w)\<rparr>)))"
proof -
  obtain res w1 where d: "Database_createNotification w u m now = (res, w1)"
    by (cases "Database_createNotification w u m now")
  with assms have res: "res = Inr n" and w': "w' = publish (''NOTIFICATION_ADDED:'' @ u) \<lparr>notificationAdded = n, payload_userId = None\<rparr> w1"
    by (cases res; auto simp: ts_createNotification_def)+
  from Database_create_result [OF d [unfolded res]] d res w' show ?thesis by simp
qed

lemma dismissed_db_eq:
  "dismissed_db =
     \<lparr>prisma_notification =
        [\<lparr>id' = 1, userId = 7, message = ''hello'', state = ''DISMISSED'', createdAt = 1000\<rparr>],
      prisma_autoincrement = 1,
      prisma_log = [Create ''hello'' 7, Update 1 ''DISMISSED'']\<rparr>"
  by (simp add: dismissed_db_def empty_db_def prisma_createNotification_def
      prisma_updateUserNotification_def prisma_update_def NotificationState_values_def Let_def)

lemma autodismissed_db_eq:
  "autodismissed_db =
     \<lparr>prisma_notification =
        [\<lparr>id' = 1, userId = 7, message = ''hello'', state = ''AUTODISMISSED'', createdAt = 1000\<rparr>],
      prisma_autoincrement = 1,
      prisma_log = [Create ''hello'' 7, Update 1 ''AUTODISMISSED'']\<rparr>"
  by (simp add: autodismissed_db_def empty_db_def prisma_createNotification_def
      prisma_updateUserNotification_def prisma_update_def NotificationState_values_def Let_def)

lemma prisma_get_set:
  "set (fst (prisma_getNotificationsForUser db p)) =
     {n \<in> set (prisma_notification db). userId n = p \<and> state n \<noteq> ''DISMISSED''}"
  by (simp add: prisma_getNotificationsForUser_def)

lemma ts_get_no_dismissed:
  assumes "cache_all (list_all (\<lambda>n. state n \<noteq> ''DISMISSED'')) w"
    "ts_getNotificationsForUser w u cur lim = (Inr c, w')"
  shows "list_all (\<lambda>e. state (node e) \<noteq> ''DISMISSED'') (edges c) \<and>
         cache_all (list_all (\<lambda>n. state n \<noteq> ''DISMISSED'')) w'"
proof -
  from ts_get_nodes [OF assms(2)] obtain ns where
    ns: "Database_getNotificationsForUser w u cur lim = (Inr ns, w')"
    and sub: "set (map node (edges c)) \<subseteq> set ns" by blast
  from Database_get_no_dismissed [OF assms(1) ns] sub show ?thesis
    by (auto simp: list_all_iff)
qed

lemma feed_rows_mixed:
  "feed_rows (pg_notifications (mixed_world :: 'c world)) ''u1'' ''DISMISSED'' cur =
     filter (\<lambda>r. case cur of None \<Rightarrow> True | Some c \<Rightarrow> createdAt r < c)
       [\<lparr>id' = 3, userId = ''u1'', message = ''third'', state = ''READ'', createdAt = 3000\<rparr>,
        \<lparr>id' = 1, userId = ''u1'', message = ''first'', state = ''UNREAD'', createdAt = 1000\<rparr>]"
  by (cases cur) (simp_all add: feed_rows_def mixed_world_def empty_world_def)

lemma ts_edges_map:
  "ts_edges (map mapNotification rs) =
     Inr (map (\<lambda>r. \<lparr>node = mapNotification r, cursor = createdAt r\<rparr>) rs)"
  by (induction rs) (simp_all add: mapNotification_def)

lemma slice0_take: "0 \<le> l \<Longrightarrow> slice0 (take (nat l) xs) l = take (nat l) xs"
  by (simp add: slice0_def)

lemma slice0_map: "slice0 (map f xs) l = map f (slice0 xs l)"
  by (simp add: slice0_def take_map)

lemma ts_get_miss_cursor:
  assumes "map_of (redis w) (u, Some c) = None" "0 \<le> l"
  shows "ts_getNotificationsForUser w u (Some c) (Some l) =
     (Inr \<lparr>edges = map (\<lambda>r. \<lparr>node = mapNotification r, cursor = createdAt r\<rparr>)
                       (take (nat l) (feed_rows (pg_notifications w) u ''DISMISSED'' (Some c))),
            pageInfo = \<lparr>hasNextPage = False,
                        endCursor = (if take (nat l) (feed_rows (pg_notifications w) u ''DISMISSED'' (Some c)) \<noteq> []
                                     then Some (createdAt (last (take (nat l) (feed_rows (pg_notifications w) u ''DISMISSED'' (Some c)))))
                                     else None)\<rparr>\<rparr>,
      redis_set (u, Some c)
        (map JSON_notification (map mapNotification
           (take (nat l) (feed_rows (pg_notifications w) u ''DISMISSED'' (Some c)))))
        300 (logged (Select u (Some c) l) (logged (Get (u, Some c)) w)))"
proof -
  let ?F = "take (nat l) (feed_rows (pg_notifications w) u ''DISMISSED'' (Some c))"
  have d: "Database_getNotificationsForUser w u (Some c) (Some l) =
     (Inr (map mapNotification ?F),
      redis_set (u, Some c) (map JSON_notification (map mapNotification ?F)) 300
        (logged (Select u (Some c) l) (logged (Get (u, Some c)) w)))"
    using assms by (simp add: Database_get_miss_cursor)
  have e: "ts_edges (slice0 (map mapNotification ?F) l) =
     Inr (map (\<lambda>r. \<lparr>node = mapNotification r, cursor = createdAt r\<rparr>) ?F)"
    using assms(2) by (simp only: slice0_map slice0_take ts_edges_map)
  have len: "\<not> l < int (length ?F)" using assms(2) by simp
  have lst: "?F \<noteq> [] \<Longrightarrow> cursor (last (map (\<lambda>r. \<lparr>node = mapNotification r, cursor = createdAt r\<rparr>) ?F)) = createdAt (last ?F)"
    by (simp add: last_map)
  show ?thesis
    unfolding ts_getNotificationsForUser_def d Let_def prod.case sum.case option.case e
    using len lst by simp
qed

lemma received_publish:
  "received (pubsub_publish topic p b) it =
     received b it @ map (\<lambda>x. p) (filter (\<lambda>(i, t). i = it \<and> t = topic) (subscribers b))"
proof -
  have "map snd (filter (\<lambda>(i, q). i = it) (map (\<lambda>(i, t). (i, p)) xs)) =
        map (\<lambda>x. p) (filter (\<lambda>(i, t). i = it) xs)" for xs :: "(nat \<times> string) list"
    by (induction xs) auto
  from this [of "filter (\<lambda>(i, t). t = topic) (subscribers b)"]
  show ?thesis
    by (simp add: received_def pubsub_publish_def case_prod_unfold conj_commute)
qed

lemma ts_fanout:
  assumes "ts_createNotification w u m now = (Inr n, w')"
  shows "received (bus w') it =
     received (bus w) it @
       map (\<lambda>x. \<lparr>notificationAdded = n, payload_userId = None\<rparr>)
         (filter (\<lambda>(i, t). i = it \<and> t = ''NOTIFICATION_ADDED:'' @ u) (subscribers (bus w)))"
  using ts_create_result [OF assms] by (simp add: received_publish)

lemma ts_subscriber_gets_one:
  assumes "ts_notificationAdded w0 v = (it, w)" "ts_createNotification w u m now = (Inr n, w')"
    "\<forall>(i, t) \<in> set (subscribers (bus w0)). i < length (subscribers (bus w0))"
  shows "received (bus w') it =
           received (bus w0) it @ (if v = u then [\<lparr>notificationAdded = n, payload_userId = None\<rparr>] else [])"
proof -
  from assms(1) have it: "it = length (subscribers (bus w0))"
    and w: "bus w = (bus w0)\<lparr>subscribers := subscribers (bus w0) @ [(it, ''NOTIFICATION_ADDED:'' @ v)]\<rparr>"
    by (auto simp: ts_notificationAdded_def asyncIterator_def pubsub_asyncIterator_def)
  have "filter (\<lambda>(i, t). i = it \<and> t = ''NOTIFICATION_ADDED:'' @ u) (subscribers (bus w0)) = []"
    using assms(3) it by (auto simp: filter_empty_conv)
  then show ?thesis
    using ts_fanout [OF assms(2), of it] w by (simp add: received_def)
qed

lemma js_get_twice:
  assumes "js_getNotificationsForUser w u cur lim = (Inr c, w')"
  shows "js_getNotificationsForUser w' u cur lim = (Inr c, logged (Get (u, cur)) w')"
proof (cases "map_of (redis w) (u, cur)")
  case None
  from assms have "\<exists>ex. map_of (redis w') (u, cur) = Some (c, ex)"
    by (auto simp: js_get_miss [OF None] redis_set_def update_conv' split: if_splits)
  then show ?thesis by (auto simp: js_get_hit)
next
  case (Some a)
  obtain c0 ex where a: "a = (c0, ex)" by (cases a)
  from assms have "c = c0" "w' = logged (Get (u, cur)) w"
    by (simp_all add: js_get_hit [OF Some [unfolded a]])
  with Some a have "map_of (redis w') (u, cur) = Some (c, ex)" by simp
  then show ?thesis by (rule js_get_hit)
qed






















lemma redis_set_fields [simp]:
  "pg_notifications (redis_set k v ex w) = pg_notifications w"
  "pg_serial (redis_set k v ex w) = pg_serial w"
  "bus (redis_set k v ex w) = bus w"
  "trace (redis_set k v ex w) = trace w @ [Set k ex]"
  "map_of (redis (redis_set k v ex w)) = (map_of (redis w))(k \<mapsto> (v, ex))"
  by (simp_all add: redis_set_def update_conv')


























section \<open>Pages and cursors\<close>






section \<open>The state machine of a notification\<close>

text \<open>
  Claim C3, as stated, fails. A notification is created and dismissed through the Prisma
  resolvers; the request to move it from \<open>DISMISSED\<close> back to \<open>UNREAD\<close> is not rejected,
  and the record is \<open>UNREAD\<close> afterwards.
\<close>

theorem dismissed_returns_to_unread:
  "map state (prisma_notification dismissed_db) = [''DISMISSED''] \<and>
   fst (prisma_updateUserNotification dismissed_db 1 ''UNREAD'') =
     Inr \<lparr>id' = 1, userId = 7, message = ''hello'', state = ''UNREAD'', createdAt = 1000\<rparr> \<and>
   map state (prisma_notification (snd (prisma_updateUserNotification dismissed_db 1 ''UNREAD''))) = [''UNREAD'']"
  by (simp add: dismissed_db_eq prisma_updateUserNotification_def prisma_update_def
      NotificationState_values_def Let_def)

text \<open>
  Claim C3, amended. None of the update operations looks at the state the notification is in:
  for every existing id and every state the store accepts, the update succeeds and leaves
  the notification in the requested state, whatever its state was. So no state is terminal.
  This holds for the Prisma resolver, for \<open>Database.updateNotification\<close> and for the
  in-memory server.
\<close>

theorem updateState_has_no_transition_guard:
  "((\<exists>r \<in> set (prisma_notification db). id' r = i) \<and> s \<in> set NotificationState_values \<longrightarrow>
      (\<exists>n db'. prisma_updateUserNotification db i s = (Inr n, db') \<and> state n = s \<and> id' n = i \<and>
           (\<forall>m \<in> set (prisma_notification db'). id' m = i \<longrightarrow> state m = s))) \<and>
   ((\<exists>r \<in> set (pg_notifications w). id' r = j) \<and> s \<in> set state_check \<longrightarrow>
      (\<exists>n w'. Database_updateNotification w j s = (Inr n, w') \<and> state n = s \<and> id' n = j \<and>
           (\<forall>m \<in> set (pg_notifications w'). id' m = j \<longrightarrow> state m = s))) \<and>
   (map_of (notifications ms) k \<noteq> None \<longrightarrow>
      (\<exists>n ms'. mem_updateUserNotification ms k s = (Inr n, ms') \<and> state n = s \<and>
           map_of (notifications ms') k = Some n))"
  using prisma_update_sets [of db i s] Database_update_sets [of w j s] mem_update_sets [of ms k _ s]
  by blast

theorem updateState_has_no_transition_guard_witness:
  "(\<exists>r \<in> set (prisma_notification dismissed_db). id' r = 1) \<and> ''UNREAD'' \<in> set NotificationState_values \<and>
   (\<exists>r \<in> set (pg_notifications (dismissed_world :: unit world)). id' r = 1) \<and> ''UNREAD'' \<in> set state_check \<and>
   map_of (notifications dismissed_server) 1000 \<noteq> None \<and>
   (\<exists>n db'. prisma_updateUserNotification dismissed_db 1 ''UNREAD'' = (Inr n, db') \<and> state n = ''UNREAD'') \<and>
   (\<exists>n w'. Database_updateNotification (dismissed_world :: unit world) 1 ''UNREAD'' = (Inr n, w') \<and> state n = ''UNREAD'') \<and>
   (\<exists>n ms'. mem_updateUserNotification dismissed_server 1000 ''UNREAD'' = (Inr n, ms') \<and> state n = ''UNREAD'')"
proof -
  have h1: "\<exists>r \<in> set (prisma_notification dismissed_db). id' r = 1"
    by (simp add: dismissed_db_eq)
  have h2: "''UNREAD'' \<in> set NotificationState_values"
    by (simp add: NotificationState_values_def)
  have h3: "\<exists>r \<in> set (pg_notifications (dismissed_world :: unit world)). id' r = 1"
    by (simp add: dismissed_world_def empty_world_def)
  have h4: "''UNREAD'' \<in> set state_check"
    by (simp add: state_check_def)
  have h5: "map_of (notifications dismissed_server) 1000 \<noteq> None"
    by (simp add: dismissed_server_def empty_server_def)
  from updateState_has_no_transition_guard [of dismissed_db 1 "''UNREAD''" "dismissed_world :: unit world" 1 dismissed_server 1000]
    h1 h2 h3 h4 h5
  show ?thesis by blast
qed

section \<open>What the feed leaves out\<close>

text \<open>
  Claim C4, as stated, fails. A notification is created and moved to \<open>AUTODISMISSED\<close>
  through the Prisma resolvers; the feed of its user still contains it.
\<close>

theorem autodismissed_is_in_the_feed:
  "fst (prisma_getNotificationsForUser autodismissed_db 7) =
     [\<lparr>id' = 1, userId = 7, message = ''hello'', state = ''AUTODISMISSED'', createdAt = 1000\<rparr>]"
  by (simp add: autodismissed_db_eq prisma_getNotificationsForUser_def)

text \<open>
  Claim C4, amended. The feed leaves out the notifications in state \<open>DISMISSED\<close> and no
  others: the Prisma resolver returns exactly the notifications of the user whose state is not
  \<open>DISMISSED\<close>, so one in state \<open>AUTODISMISSED\<close> is returned; and every notification in a
  connection that the JavaScript or the TypeScript resolver returns has a state other than
  \<open>DISMISSED\<close>, on a cache hit as well, since every page that the read path stores in the
  cache is free of dismissed notifications and stays so.
\<close>

theorem feed_excludes_only_dismissed:
  "set (fst (prisma_getNotificationsForUser db p)) =
     {n \<in> set (prisma_notification db). userId n = p \<and> state n \<noteq> ''DISMISSED''} \<and>
   (cache_all no_dismissed w \<and> js_getNotificationsForUser w u cur lim = (Inr c, w') \<longrightarrow>
      no_dismissed c \<and> cache_all no_dismissed w') \<and>
   (cache_all (list_all (\<lambda>n. state n \<noteq> ''DISMISSED'')) tw \<and>
    ts_getNotificationsForUser tw tu tcur tlim = (Inr tc, tw') \<longrightarrow>
      list_all (\<lambda>e. state (node e) \<noteq> ''DISMISSED'') (edges tc) \<and>
      cache_all (list_all (\<lambda>n. state n \<noteq> ''DISMISSED'')) tw')"
  using prisma_get_set [of db p] js_get_no_dismissed [of w u cur lim c w']
    ts_get_no_dismissed [of tw tu tcur tlim tc tw']
  by blast

theorem feed_excludes_only_dismissed_witness:
  "cache_all no_dismissed (mixed_world :: NotificationConnection world) \<and>
   js_getNotificationsForUser mixed_world ''u1'' None None =
     (Inr (js_result
             [\<lparr>id' = 3, userId = ''u1'', message = ''third'', state = ''READ'', createdAt = 3000\<rparr>,
              \<lparr>id' = 1, userId = ''u1'', message = ''first'', state = ''UNREAD'', createdAt = 1000\<rparr>] 20),
      redis_set (''u1'', None)
        (js_result
             [\<lparr>id' = 3, userId = ''u1'', message = ''third'', state = ''READ'', createdAt = 3000\<rparr>,
              \<lparr>id' = 1, userId = ''u1'', message = ''first'', state = ''UNREAD'', createdAt = 1000\<rparr>] 20)
        CACHE_TTL (logged (Select ''u1'' None 21) (logged (Get (''u1'', None)) mixed_world))) \<and>
   no_dismissed (js_result
             [\<lparr>id' = 3, userId = ''u1'', message = ''third'', state = ''READ'', createdAt = 3000\<rparr>,
              \<lparr>id' = 1, userId = ''u1'', message = ''first'', state = ''UNREAD'', createdAt = 1000\<rparr>] 20) \<and>
   map (\<lambda>e. state (node e)) (edges (js_result
             [\<lparr>id' = 3, userId = ''u1'', message = ''third'', state = ''READ'', createdAt = 3000\<rparr>,
              \<lparr>id' = 1, userId = ''u1'', message = ''first'', state = ''UNREAD'', createdAt = 1000\<rparr>] 20))
     = [''READ'', ''UNREAD''] \<and>
   cache_all (list_all (\<lambda>n. state n \<noteq> ''DISMISSED'')) (mixed_world :: ts_world) \<and>
   fst (ts_getNotificationsForUser mixed_world ''u1'' (Some 5000) (Some 20)) =
     Inr \<lparr>edges =
            [\<lparr>node = \<lparr>id' = 3, userId = ''u1'', message = ''third'', state = ''READ'', createdAt = Date 3000\<rparr>,
              cursor = 3000\<rparr>,
             \<lparr>node = \<lparr>id' = 1, userId = ''u1'', message = ''first'', state = ''UNREAD'', createdAt = Date 1000\<rparr>,
              cursor = 1000\<rparr>],
          pageInfo = \<lparr>hasNextPage = False, endCursor = Some 1000\<rparr>\<rparr> \<and>
   cache_all (list_all (\<lambda>n. state n \<noteq> ''DISMISSED''))
     (snd (ts_getNotificationsForUser mixed_world ''u1'' (Some 5000) (Some 20)))"
proof -
  let ?page = "js_result
             [\<lparr>id' = 3, userId = ''u1'', message = ''third'', state = ''READ'', createdAt = 3000\<rparr>,
              \<lparr>id' = 1, userId = ''u1'', message = ''first'', state = ''UNREAD'', createdAt = 1000\<rparr>] 20"
  let ?w' = "redis_set (''u1'', None) ?page
        CACHE_TTL (logged (Select ''u1'' None 21) (logged (Get (''u1'', None)) (mixed_world :: NotificationConnection world)))"
  let ?tpage = "\<lparr>edges =
            [\<lparr>node = \<lparr>id' = 3, userId = ''u1'', message = ''third'', state = ''READ'', createdAt = Date 3000\<rparr>,
              cursor = 3000\<rparr>,
             \<lparr>node = \<lparr>id' = 1, userId = ''u1'', message = ''first'', state = ''UNREAD'', createdAt = Date 1000\<rparr>,
              cursor = 1000\<rparr>],
          pageInfo = \<lparr>hasNextPage = False, endCursor = Some 1000\<rparr>\<rparr>"
  let ?tw' = "snd (ts_getNotificationsForUser mixed_world ''u1'' (Some 5000) (Some 20))"
  have h1: "cache_all no_dismissed (mixed_world :: NotificationConnection world)"
    by (simp add: cache_all_def mixed_world_def empty_world_def)
  have miss: "map_of (redis (mixed_world :: NotificationConnection world)) (''u1'', None) = None"
    by (simp add: mixed_world_def empty_world_def)
  have h2: "js_getNotificationsForUser mixed_world ''u1'' None None = (Inr ?page, ?w')"
    by (simp add: js_get_miss [OF miss] feed_rows_mixed)
  have h3: "cache_all (list_all (\<lambda>n. state n \<noteq> ''DISMISSED'')) (mixed_world :: ts_world)"
    by (simp add: cache_all_def mixed_world_def empty_world_def)
  have tmiss: "map_of (redis (mixed_world :: ts_world)) (''u1'', Some 5000) = None"
    by (simp add: mixed_world_def empty_world_def)
  have t1: "fst (ts_getNotificationsForUser mixed_world ''u1'' (Some 5000) (Some 20)) = Inr ?tpage"
    by (simp add: ts_get_miss_cursor [OF tmiss] feed_rows_mixed mapNotification_def)
  then have h4: "ts_getNotificationsForUser mixed_world ''u1'' (Some 5000) (Some 20) = (Inr ?tpage, ?tw')"
    by (simp add: prod_eq_iff)
  note t = feed_excludes_only_dismissed [of _ _ "mixed_world :: NotificationConnection world" "''u1''" None None ?page ?w'
      "mixed_world :: ts_world" "''u1''" "Some 5000" "Some 20" ?tpage ?tw']
  from t h1 h2 have c1: "no_dismissed ?page" by blast
  have c2: "map (\<lambda>e. state (node e)) (edges ?page) = [''READ'', ''UNREAD'']"
    by (simp add: js_result_def slice0_def js_node_def)
  from t h3 h4 have c3: "cache_all (list_all (\<lambda>n. state n \<noteq> ''DISMISSED'')) ?tw'" by blast
  from h1 h2 c1 c2 h3 t1 c3 show ?thesis by (intro conjI)
qed

section \<open>Unknown states are rejected before the store is touched\<close>



section \<open>The order of the effects of a creation\<close>



section \<open>Fan-out\<close>

text \<open>
  Claim C7 holds for the TypeScript service (lemma \<open>ts_subscriber_gets_one\<close>) and fails for
  the other two. In the JavaScript service a client subscribes to \<open>notificationAdded\<close> of
  \<open>u1\<close> and listens on the topic \<open>NOTIFICATION_ADDED:u1\<close>; the creation of a notification
  for \<open>u1\<close> publishes on the topic \<open>NOTIFICATION_ADDED\<close>, and the client receives nothing.
  In the in-memory server every subscription listens on the one topic \<open>NOTIFICATION_ADDED\<close>,
  and a client subscribed for \<open>u2\<close> receives the notification created for \<open>u1\<close>.
\<close>

theorem fanout_topics_of_js_and_memory_server:
  "fst (js_notificationAdded (empty_world :: unit world) ''u1'') = 0 \<and>
   subscribers (bus (subscribed_world :: unit world)) = [(0, ''NOTIFICATION_ADDED:u1'')] \<and>
   fst (js_createNotification (subscribed_world :: unit world) ''u1'' ''hi'' 1000) =
     Inr \<lparr>id' = 1, userId = ''u1'', message = ''hi'', state = ''UNREAD'', createdAt = ISOString 1000\<rparr> \<and>
   trace (snd (js_createNotification (subscribed_world :: unit world) ''u1'' ''hi'' 1000)) =
     [Insert ''u1'' ''hi'' ''UNREAD'', Keys ''u1'',
      Publish ''NOTIFICATION_ADDED''
        \<lparr>notificationAdded =
           \<lparr>id' = 1, userId = ''u1'', message = ''hi'', state = ''UNREAD'', createdAt = ISOString 1000\<rparr>,
         payload_userId = Some ''u1''\<rparr>] \<and>
   received (bus (snd (js_createNotification (subscribed_world :: unit world) ''u1'' ''hi'' 1000))) 0 = [] \<and>
   fst (mem_notificationAdded empty_server ''u2'') = 0 \<and>
   received (pubsub (snd (mem_createNotification subscribed_server ''u1'' ''hi'' 1000 1000))) 0 =
     [\<lparr>notificationAdded =
         \<lparr>id' = 1000, userId = ''u1'', message = ''hi'', state = ''UNREAD'', createdAt = ISOString 1000\<rparr>,
       payload_userId = Some ''u1''\<rparr>]"
  by (simp add: subscribed_world_def subscribed_server_def empty_world_def empty_server_def
      js_notificationAdded_def mem_notificationAdded_def asyncIterator_def pubsub_asyncIterator_def
      js_createNotification_def mem_createNotification_def pg_insert_def state_check_def
      invalidateCache_def redis_keys_def redis_del_def logged_def publish_def pubsub_publish_def
      js_node_def received_def Let_def)

section \<open>The retention sweep\<close>



section \<open>Repeated reads\<close>

text \<open>
  Claim C9 holds for the JavaScript resolver (lemma \<open>js_get_twice\<close>) and fails for the
  TypeScript service. There the class \<open>Database\<close> caches the notifications, not the
  connection, as JSON; read back, their \<open>createdAt\<close> is a string, and the resolver calls
  \<open>toISOString\<close> on it. With one notification of \<open>u1\<close> in the table and nothing in the
  cache, the first \<open>getNotificationsForUser(u1, cursor, 20)\<close> returns a connection of one
  edge and the second, with the same arguments and no write in between, fails.
\<close>

theorem ts_second_fetch_fails:
  "fst (ts_getNotificationsForUser two_rows ''u1'' (Some 2000) (Some 20)) =
     Inr \<lparr>edges = [\<lparr>node = \<lparr>id' = 1, userId = ''u1'', message = ''first'', state = ''UNREAD'',
                             createdAt = Date 1000\<rparr>,
                      cursor = 1000\<rparr>],
           pageInfo = \<lparr>hasNextPage = False, endCursor = Some 1000\<rparr>\<rparr> \<and>
   redis (snd (ts_getNotificationsForUser two_rows ''u1'' (Some 2000) (Some 20))) =
     [((''u1'', Some 2000),
       [\<lparr>id' = 1, userId = ''u1'', message = ''first'', state = ''UNREAD'', createdAt = ISOString 1000\<rparr>],
       300)] \<and>
   pg_notifications (snd (ts_getNotificationsForUser two_rows ''u1'' (Some 2000) (Some 20))) =
     pg_notifications (two_rows :: ts_world) \<and>
   fst (ts_getNotificationsForUser
          (snd (ts_getNotificationsForUser two_rows ''u1'' (Some 2000) (Some 20)))
          ''u1'' (Some 2000) (Some 20)) =
     Inl (TypeError ''toISOString is not a function'')"
proof -
  have miss: "map_of (redis (two_rows :: ts_world)) (''u1'', Some 2000) = None"
    by (simp add: two_rows_def empty_world_def)
  have rows: "feed_rows (pg_notifications (two_rows :: ts_world)) ''u1'' ''DISMISSED'' (Some 2000) =
      [\<lparr>id' = 1, userId = ''u1'', message = ''first'', state = ''UNREAD'', createdAt = 1000\<rparr>]"
    by (simp add: feed_rows_def two_rows_def empty_world_def)
  have first: "ts_getNotificationsForUser two_rows ''u1'' (Some 2000) (Some 20) =
     (Inr \<lparr>edges = [\<lparr>node = \<lparr>id' = 1, userId = ''u1'', message = ''first'', state = ''UNREAD'',
                             createdAt = Date 1000\<rparr>,
                      cursor = 1000\<rparr>],
           pageInfo = \<lparr>hasNextPage = False, endCursor = Some 1000\<rparr>\<rparr>,
      redis_set (''u1'', Some 2000)
        [\<lparr>id' = 1, userId = ''u1'', message = ''first'', state = ''UNREAD'', createdAt = ISOString 1000\<rparr>]
        300 (logged (Select ''u1'' (Some 2000) 20) (logged (Get (''u1'', Some 2000)) two_rows)))"
    by (simp add: ts_get_miss_cursor [OF miss] rows mapNotification_def JSON_notification_def JSON_date_def)
  have hit: "map_of (redis (redis_set (''u1'', Some 2000)
        [\<lparr>id' = 1, userId = ''u1'', message = ''first'', state = ''UNREAD'', createdAt = ISOString 1000\<rparr>]
        300 (logged (Select ''u1'' (Some 2000) 20) (logged (Get (''u1'', Some 2000)) (two_rows :: ts_world)))))
        (''u1'', Some 2000) =
      Some ([\<lparr>id' = 1, userId = ''u1'', message = ''first'', state = ''UNREAD'', createdAt = ISOString 1000\<rparr>], 300)"
    by (simp add: redis_set_def update_conv')
  let ?w1 = "redis_set (''u1'', Some 2000)
        [\<lparr>id' = 1, userId = ''u1'', message = ''first'', state = ''UNREAD'', createdAt = ISOString 1000\<rparr>]
        300 (logged (Select ''u1'' (Some 2000) 20) (logged (Get (''u1'', Some 2000)) (two_rows :: ts_world)))"
  have c1: "redis ?w1 =
     [((''u1'', Some 2000),
       [\<lparr>id' = 1, userId = ''u1'', message = ''first'', state = ''UNREAD'', createdAt = ISOString 1000\<rparr>],
       300)]"
    by (simp add: redis_set_def two_rows_def empty_world_def)
  have c2: "pg_notifications ?w1 = pg_notifications (two_rows :: ts_world)"
    by (simp add: redis_set_def)
  have c3: "fst (ts_getNotificationsForUser ?w1 ''u1'' (Some 2000) (Some 20)) =
     Inl (TypeError ''toISOString is not a function'')"
    unfolding ts_getNotificationsForUser_def Database_get_hit [OF hit]
    by (simp add: slice0_def)
  show ?thesis
    unfolding first fst_conv snd_conv
    using c1 c2 c3 by (intro conjI refl)
qed

section \<open>The frame of an update\<close>

text \<open>
  Claim C10. A successful update changes the state of the records with the given id and
  nothing else: every field of such a record but \<open>state\<close> is as before, every other record
  is unchanged, and so are the sequence and the bus. This holds for
  \<open>Database.updateNotification\<close>, for the Prisma resolver and for the in-memory server.
\<close>

theorem updateState_changes_only_state:
  "(Database_updateNotification w i s = (Inr n, w') \<longrightarrow>
      pg_notifications w' = map (\<lambda>r. if id' r = i then r\<lparr>state := s\<rparr> else r) (pg_notifications w) \<and>
      pg_serial w' = pg_serial w \<and>
      (\<exists>r \<in> set (pg_notifications w). id' r = i \<and> n = mapNotification (r\<lparr>state := s\<rparr>))) \<and>
   (prisma_updateUserNotification db j t = (Inr pn, db') \<longrightarrow>
      prisma_notification db' = map (\<lambda>r. if id' r = j then r\<lparr>state := t\<rparr> else r) (prisma_notification db) \<and>
      prisma_autoincrement db' = prisma_autoincrement db \<and>
      (\<exists>r \<in> set (prisma_notification db). id' r = j \<and> pn = r\<lparr>state := t\<rparr>)) \<and>
   (mem_updateUserNotification ms k v = (Inr mn, ms') \<longrightarrow>
      (\<exists>old. map_of (notifications ms) k = Some old \<and> mn = old\<lparr>state := v\<rparr>) \<and>
      map_of (notifications ms') = (map_of (notifications ms))(k \<mapsto> mn) \<and>
      pubsub ms' = pubsub ms)"
  using Database_update_frame [of w i s n w'] prisma_update_frame [of db j t pn db']
    mem_update_frame [of ms k v mn ms']
  by blast

theorem updateState_changes_only_state_witness:
  "Database_updateNotification (two_rows :: unit world) 1 ''READ'' =
     (Inr \<lparr>id' = 1, userId = ''u1'', message = ''first'', state = ''READ'', createdAt = Date 1000\<rparr>,
      two_rows_read) \<and>
   prisma_updateUserNotification dismissed_db 1 ''VIEWED'' =
     (Inr \<lparr>id' = 1, userId = 7, message = ''hello'', state = ''VIEWED'', createdAt = 1000\<rparr>, viewed_db) \<and>
   mem_updateUserNotification dismissed_server 1000 ''READ'' =
     (Inr \<lparr>id' = 1000, userId = ''u1'', message = ''hello'', state = ''READ'', createdAt = ISOString 1000\<rparr>,
      read_server) \<and>
   pg_notifications (two_rows_read :: unit world) =
     map (\<lambda>r. if id' r = 1 then r\<lparr>state := ''READ''\<rparr> else r) (pg_notifications (two_rows :: unit world)) \<and>
   prisma_notification viewed_db =
     map (\<lambda>r. if id' r = 1 then r\<lparr>state := ''VIEWED''\<rparr> else r) (prisma_notification dismissed_db) \<and>
   pubsub read_server = pubsub dismissed_server"
proof -
  have a: "Database_updateNotification (two_rows :: unit world) 1 ''READ'' =
     (Inr \<lparr>id' = 1, userId = ''u1'', message = ''first'', state = ''READ'', createdAt = Date 1000\<rparr>,
      two_rows_read)"
    by (simp add: two_rows_read_def two_rows_def empty_world_def Database_updateNotification_def pg_update_def
      state_check_def invalidateCache_def redis_keys_def logged_def mapNotification_def)
  have b: "prisma_updateUserNotification dismissed_db 1 ''VIEWED'' =
     (Inr \<lparr>id' = 1, userId = 7, message = ''hello'', state = ''VIEWED'', createdAt = 1000\<rparr>, viewed_db)"
    by (simp add: viewed_db_def dismissed_db_eq prisma_updateUserNotification_def prisma_update_def
        NotificationState_values_def Let_def)
  have c: "mem_updateUserNotification dismissed_server 1000 ''READ'' =
     (Inr \<lparr>id' = 1000, userId = ''u1'', message = ''hello'', state = ''READ'', createdAt = ISOString 1000\<rparr>,
      read_server)"
    by (simp add: read_server_def dismissed_server_def empty_server_def mem_updateUserNotification_def)
  note t = updateState_changes_only_state [of "two_rows :: unit world" 1 "''READ''" _ two_rows_read
      dismissed_db 1 "''VIEWED''" _ viewed_db dismissed_server 1000 "''READ''" _ read_server]
  from t a have d: "pg_notifications (two_rows_read :: unit world) =
     map (\<lambda>r. if id' r = 1 then r\<lparr>state := ''READ''\<rparr> else r) (pg_notifications (two_rows :: unit world))"
    by blast
  from t b have e: "prisma_notification viewed_db =
     map (\<lambda>r. if id' r = 1 then r\<lparr>state := ''VIEWED''\<rparr> else r) (prisma_notification dismissed_db)"
    by blast
  from t c have f: "pubsub read_server = pubsub dismissed_server"
    by blast
  from a b c d e f show ?thesis by (intro conjI)
qed

end
